theory Spec2Isabelle
  imports Complex_Main
begin

section \<open>The metrics collector of \<^verbatim>\<open>api_test_project/metrics/metrics_collector.py\<close>\<close>

text \<open>
  The class \<^verbatim>\<open>MetricsCollector\<close> is embedded as a record of its instance attributes and
  one HOL function per method, each taking the collector and returning the updated one.
  Three things of the Python run-time are made explicit:
  \<^item> \<^verbatim>\<open>time.time()\<close> is an argument \<open>now\<close> of every method that reads the clock;
  \<^item> the text that an f-string produces for a float is an argument \<open>fmt\<close> (it belongs to the
    interpreter, not to the repository);
  \<^item> Python floats are idealised as the reals, so \<^verbatim>\<open>/\<close> is exact division, and Python
    integers are \<^typ>\<open>int\<close>.
  The lock, the results directory and the logger are left out: every method runs under
  the one lock, so a run of the collector is a sequence of whole method calls.
\<close>

subsection \<open>Exceptions\<close>

datatype py_error = ZeroDivisionError | ValueError

text \<open>Python's \<^verbatim>\<open>a / b\<close> on numbers: raises on a zero divisor.\<close>

definition py_truediv :: "real \<Rightarrow> real \<Rightarrow> py_error + real" where
  "py_truediv a b = (if b = 0 then Inl ZeroDivisionError else Inr (a / b))"

text \<open>Python's builtin \<^verbatim>\<open>min\<close> on a list: raises on the empty list.\<close>

fun py_min :: "real list \<Rightarrow> py_error + real" where
  "py_min [] = Inl ValueError"
| "py_min (x # xs) = Inr (fold min xs x)"

subsection \<open>\<^verbatim>\<open>collections.deque(maxlen=n)\<close>\<close>

text \<open>
  \<^verbatim>\<open>deque.append\<close> adds on the right and, when the deque is then longer than
  \<^verbatim>\<open>maxlen\<close>, drops one element on the left.
\<close>

definition deque_append :: "nat \<Rightarrow> 'a list \<Rightarrow> 'a \<Rightarrow> 'a list" where
  "deque_append maxlen d x = (let d' = d @ [x] in if length d' > maxlen then tl d' else d')"

fun deque_extend :: "nat \<Rightarrow> 'a list \<Rightarrow> 'a list \<Rightarrow> 'a list" where
  "deque_extend maxlen d [] = d"
| "deque_extend maxlen d (x # xs) = deque_extend maxlen (deque_append maxlen d x) xs"

subsection \<open>The dictionaries that are stored\<close>

record request_data =
  rq_timestamp :: real
  rq_endpoint :: string
  rq_method :: string
  rq_status_code :: int
  rq_ttft :: "real option"
  rq_ttct :: real
  rq_content_length :: int
  rq_is_stream :: bool
  rq_request_id :: string

record stream_data =
  sd_timestamp :: real
  sd_endpoint :: string
  sd_status_code :: int
  sd_ttft :: real
  sd_ttct :: real
  sd_token_count :: int
  sd_tokens_per_second :: real
  sd_request_id :: string

record error_data =
  ed_timestamp :: real
  ed_message :: string
  ed_endpoint :: string

subsection \<open>The collector\<close>

record collector =
  requests :: "request_data list"
  stream_metrics :: "stream_data list"
  errors :: "string \<rightharpoonup> error_data list"
  active_requests :: int
  request_times :: "real list"
  recent_ttfts :: "real list"
  recent_ttcts :: "real list"
  session_start_time :: real
  success_count :: int
  failure_count :: int
  timeout_count :: int
  total_tokens :: int
  sse_endpoints :: "string set"
  non_sse_endpoints :: "string set"
  sse_requests :: "(request_data + stream_data) list"
  non_sse_requests :: "request_data list"
  sse_request_ids :: "string set"
  total_request_count :: int

text \<open>\<^verbatim>\<open>__init__\<close>: the three deques have \<^verbatim>\<open>maxlen\<close> 1000, 100 and 100.\<close>

definition request_times_maxlen :: nat where
  "request_times_maxlen = 1000"

definition recent_ttfts_maxlen :: nat where
  "recent_ttfts_maxlen = 100"

definition recent_ttcts_maxlen :: nat where
  "recent_ttcts_maxlen = 100"

definition init :: "real \<Rightarrow> collector" where
  "init now =
     \<lparr> requests = [], stream_metrics = [], errors = Map.empty, active_requests = 0,
       request_times = [], recent_ttfts = [], recent_ttcts = [],
       session_start_time = now,
       success_count = 0, failure_count = 0, timeout_count = 0, total_tokens = 0,
       sse_endpoints = {}, non_sse_endpoints = {}, sse_requests = [], non_sse_requests = [],
       sse_request_ids = {}, total_request_count = 0 \<rparr>"

text \<open>The request id made up when the caller gives none: \<^verbatim>\<open>f"{endpoint}-{timestamp}"\<close>.\<close>

definition synthetic_id :: "(real \<Rightarrow> string) \<Rightarrow> string \<Rightarrow> real \<Rightarrow> string" where
  "synthetic_id fmt endpoint timestamp = endpoint @ ''-'' @ fmt timestamp"

definition effective_id :: "(real \<Rightarrow> string) \<Rightarrow> string \<Rightarrow> real \<Rightarrow> string option \<Rightarrow> string" where
  "effective_id fmt endpoint timestamp request_id =
     (case request_id of None \<Rightarrow> synthetic_id fmt endpoint timestamp | Some r \<Rightarrow> r)"

definition is_success :: "int \<Rightarrow> bool" where
  "is_success status_code \<longleftrightarrow> 200 \<le> status_code \<and> status_code < 300"

definition record_request ::
  "(real \<Rightarrow> string) \<Rightarrow> real \<Rightarrow> collector \<Rightarrow> string \<Rightarrow> string \<Rightarrow> int \<Rightarrow> real option \<Rightarrow> real
     \<Rightarrow> int \<Rightarrow> bool \<Rightarrow> string option \<Rightarrow> collector" where
  "record_request fmt now self endpoint method status_code ttft ttct content_length is_stream
       request_id =
     (let timestamp = now;
          rid = effective_id fmt endpoint timestamp request_id;
          request_data =
            \<lparr> rq_timestamp = timestamp, rq_endpoint = endpoint, rq_method = method,
              rq_status_code = status_code, rq_ttft = ttft, rq_ttct = ttct,
              rq_content_length = content_length, rq_is_stream = is_stream,
              rq_request_id = rid \<rparr>;
          self1 = self
            \<lparr> requests := requests self @ [request_data],
              request_times := deque_append request_times_maxlen (request_times self) timestamp,
              total_request_count := total_request_count self + 1 \<rparr>;
          self2 = (case ttft of
                     None \<Rightarrow> self1
                   | Some v \<Rightarrow>
                       self1 \<lparr> recent_ttfts :=
                                deque_append recent_ttfts_maxlen (recent_ttfts self1) v \<rparr>);
          self3 = self2 \<lparr> recent_ttcts :=
                            deque_append recent_ttcts_maxlen (recent_ttcts self2) ttct \<rparr>
      in if is_stream then
           self3 \<lparr> sse_endpoints := insert endpoint (sse_endpoints self3),
                   sse_requests := sse_requests self3 @ [Inl request_data] \<rparr>
         else
           (let self4 = self3
                  \<lparr> non_sse_endpoints := insert endpoint (non_sse_endpoints self3),
                    non_sse_requests := non_sse_requests self3 @ [request_data] \<rparr>
            in if is_success status_code
               then self4 \<lparr> success_count := success_count self4 + 1 \<rparr>
               else self4 \<lparr> failure_count := failure_count self4 + 1 \<rparr>))"

definition record_stream_completion ::
  "(real \<Rightarrow> string) \<Rightarrow> real \<Rightarrow> collector \<Rightarrow> string \<Rightarrow> int \<Rightarrow> real \<Rightarrow> real \<Rightarrow> int
     \<Rightarrow> string option \<Rightarrow> collector" where
  "record_stream_completion fmt now self endpoint status_code ttft ttct token_count request_id =
     (let timestamp = now;
          rid = effective_id fmt endpoint timestamp request_id;
          tokens_per_second = (if ttct > 0 then real_of_int token_count / ttct else 0);
          stream_data =
            \<lparr> sd_timestamp = timestamp, sd_endpoint = endpoint, sd_status_code = status_code,
              sd_ttft = ttft, sd_ttct = ttct, sd_token_count = token_count,
              sd_tokens_per_second = tokens_per_second, sd_request_id = rid \<rparr>;
          self1 = self
            \<lparr> stream_metrics := stream_metrics self @ [stream_data],
              recent_ttfts := deque_append recent_ttfts_maxlen (recent_ttfts self) ttft,
              recent_ttcts := deque_append recent_ttcts_maxlen (recent_ttcts self) ttct,
              total_tokens := total_tokens self + token_count,
              sse_endpoints := insert endpoint (sse_endpoints self),
              sse_requests := sse_requests self @ [Inr stream_data] \<rparr>
      in if rid \<notin> sse_request_ids self1 then
           (let self2 = self1 \<lparr> sse_request_ids := insert rid (sse_request_ids self1) \<rparr>
            in if is_success status_code
               then self2 \<lparr> success_count := success_count self2 + 1 \<rparr>
               else self2 \<lparr> failure_count := failure_count self2 + 1 \<rparr>)
         else self1)"

text \<open>\<^verbatim>\<open>self._errors\<close> is a \<^verbatim>\<open>defaultdict(list)\<close>: a missing key reads as the empty list.\<close>

definition errors_of :: "collector \<Rightarrow> string \<Rightarrow> error_data list" where
  "errors_of self error_type = (case errors self error_type of None \<Rightarrow> [] | Some es \<Rightarrow> es)"

definition record_error ::
  "real \<Rightarrow> collector \<Rightarrow> string \<Rightarrow> string \<Rightarrow> string \<Rightarrow> collector" where
  "record_error now self error_type error_message endpoint =
     (let self1 = (if error_type = ''timeout''
                   then self \<lparr> timeout_count := timeout_count self + 1 \<rparr> else self);
          self2 = self1 \<lparr> failure_count := failure_count self1 + 1 \<rparr>;
          error_data = \<lparr> ed_timestamp = now, ed_message = error_message,
                         ed_endpoint = endpoint \<rparr>
      in self2 \<lparr> errors := (errors self2)(error_type \<mapsto> errors_of self2 error_type @ [error_data]) \<rparr>)"

definition reset :: "real \<Rightarrow> collector \<Rightarrow> collector" where
  "reset now self =
     self \<lparr> requests := [], stream_metrics := [], errors := Map.empty,
            request_times := [], recent_ttfts := [], recent_ttcts := [],
            session_start_time := now,
            success_count := 0, failure_count := 0, timeout_count := 0, total_tokens := 0,
            sse_endpoints := {}, non_sse_endpoints := {}, sse_requests := [],
            non_sse_requests := [], sse_request_ids := {}, total_request_count := 0 \<rparr>"

subsection \<open>Runs of the collector\<close>

text \<open>
  One recording call, with its arguments in the order of the method's signature. An event
  is a call together with the clock reading it sees.
\<close>

datatype op =
    RecordRequest string string int "real option" real int bool "string option"
  | RecordStreamCompletion string int real real int "string option"
  | RecordError string string string

type_synonym event = "real \<times> op"

fun apply_op :: "(real \<Rightarrow> string) \<Rightarrow> collector \<Rightarrow> event \<Rightarrow> collector" where
  "apply_op fmt self (now, RecordRequest endpoint method status_code ttft ttct content_length
                            is_stream request_id) =
     record_request fmt now self endpoint method status_code ttft ttct content_length is_stream
       request_id"
| "apply_op fmt self (now, RecordStreamCompletion endpoint status_code ttft ttct token_count
                            request_id) =
     record_stream_completion fmt now self endpoint status_code ttft ttct token_count request_id"
| "apply_op fmt self (now, RecordError error_type error_message endpoint) =
     record_error now self error_type error_message endpoint"

fun run :: "(real \<Rightarrow> string) \<Rightarrow> collector \<Rightarrow> event list \<Rightarrow> collector" where
  "run fmt self [] = self"
| "run fmt self (e # es) = run fmt (apply_op fmt self e) es"

subsection \<open>The aggregator methods\<close>

definition get_success_rate :: "collector \<Rightarrow> py_error + real" where
  "get_success_rate self =
     (let total = success_count self + failure_count self
      in if total = 0 then Inr 0
         else py_truediv (real_of_int (success_count self)) (real_of_int total))"

text \<open>The list comprehension \<^verbatim>\<open>[t for t in self._request_times if now - t <= 60]\<close>.\<close>

definition in_last_minute :: "real \<Rightarrow> real \<Rightarrow> bool" where
  "in_last_minute now t \<longleftrightarrow> now - t \<le> 60"

definition recent_requests :: "real \<Rightarrow> collector \<Rightarrow> real list" where
  "recent_requests now self = filter (in_last_minute now) (request_times self)"

definition get_current_rps :: "real \<Rightarrow> collector \<Rightarrow> py_error + real" where
  "get_current_rps now self =
     (if length (request_times self) < 2 then Inr 0
      else if recent_requests now self = [] then Inr 0
      else (case py_min (recent_requests now self) of
              Inl e \<Rightarrow> Inl e
            | Inr oldest \<Rightarrow>
                (let time_span = now - oldest
                 in if time_span \<le> 0 then Inr 0
                    else py_truediv (real (length (recent_requests now self))) time_span)))"

subsection \<open>The numpy reductions used by \<^verbatim>\<open>get_recent_latencies\<close>\<close>

text \<open>
  numpy is a library, not code of the repository; its reductions are written here as numpy
  documents them, over the reals. \<^verbatim>\<open>np.percentile\<close> with its default method interpolates
  linearly between the two order statistics around the position \<open>(n - 1) * q / 100\<close>;
  \<^verbatim>\<open>np.median\<close> is the middle order statistic, or the mean of the two middle ones. On
  an empty array \<^verbatim>\<open>np.min\<close> and \<^verbatim>\<open>np.max\<close> raise \<^verbatim>\<open>ValueError\<close>; the others give
  \<^verbatim>\<open>nan\<close> with a warning, which is no real number: the model returns an error value
  there as well. The collector calls them on non-empty windows only.
\<close>

definition np_mean :: "real list \<Rightarrow> py_error + real" where
  "np_mean a = (if a = [] then Inl ValueError else Inr (sum_list a / real (length a)))"

definition np_percentile :: "real list \<Rightarrow> real \<Rightarrow> py_error + real" where
  "np_percentile a q =
     (if a = [] then Inl ValueError
      else Inr (let s = sort a;
                    n = length s;
                    h = real (n - 1) * (q / 100);
                    lo = nat \<lfloor>h\<rfloor>;
                    hi = min (lo + 1) (n - 1)
                in s ! lo + (h - real lo) * (s ! hi - s ! lo)))"

definition np_median :: "real list \<Rightarrow> py_error + real" where
  "np_median a =
     (if a = [] then Inl ValueError
      else Inr (let s = sort a; n = length s
                in if odd n then s ! (n div 2)
                   else (s ! (n div 2 - 1) + s ! (n div 2)) / 2))"

fun np_min :: "real list \<Rightarrow> py_error + real" where
  "np_min [] = Inl ValueError"
| "np_min (x # xs) = Inr (fold min xs x)"

fun np_max :: "real list \<Rightarrow> py_error + real" where
  "np_max [] = Inl ValueError"
| "np_max (x # xs) = Inr (fold max xs x)"

text \<open>Sequencing of computations that may raise: the first exception wins.\<close>

definition bind_err :: "py_error + 'a \<Rightarrow> ('a \<Rightarrow> py_error + 'b) \<Rightarrow> py_error + 'b" where
  "bind_err m f = (case m of Inl e \<Rightarrow> Inl e | Inr v \<Rightarrow> f v)"

text \<open>
  The dictionary literal with the six statistics of one window, its entries evaluated in
  the order written. A dictionary is an association list in insertion order; \<^verbatim>\<open>d.get(k)\<close>
  is \<^const>\<open>map_of\<close>.
\<close>

type_synonym stats = "(string \<times> real) list"

definition window_stats :: "real list \<Rightarrow> py_error + stats" where
  "window_stats a =
     bind_err (np_mean a) (\<lambda>avg.
     bind_err (np_median a) (\<lambda>median.
     bind_err (np_percentile a 90) (\<lambda>p90.
     bind_err (np_percentile a 95) (\<lambda>p95.
     bind_err (np_min a) (\<lambda>mn.
     bind_err (np_max a) (\<lambda>mx.
       Inr [(''avg'', avg), (''median'', median), (''p90'', p90), (''p95'', p95),
            (''min'', mn), (''max'', mx)]))))))"

definition get_recent_latencies :: "collector \<Rightarrow> py_error + (stats \<times> stats)" where
  "get_recent_latencies self =
     bind_err (if recent_ttfts self \<noteq> [] then window_stats (recent_ttfts self) else Inr [])
       (\<lambda>ttft_stats.
     bind_err (if recent_ttcts self \<noteq> [] then window_stats (recent_ttcts self) else Inr [])
       (\<lambda>ttct_stats.
       Inr (ttft_stats, ttct_stats)))"

definition get_error_summary :: "collector \<Rightarrow> (string \<rightharpoonup> int)" where
  "get_error_summary self =
     (\<lambda>error_type. map_option (\<lambda>es. int (length es)) (errors self error_type))"

text \<open>The pydantic model \<^verbatim>\<open>TestResult\<close> of \<^verbatim>\<open>models/response_models.py\<close>.\<close>

record test_result =
  tr_timestamp :: real
  tr_concurrent_users :: int
  tr_success_count :: int
  tr_failure_count :: int
  total_requests :: int
  tr_timeout_count :: int
  avg_ttft :: "real option"
  avg_ttct :: "real option"
  p50_ttft :: "real option"
  p90_ttft :: "real option"
  p95_ttft :: "real option"
  p50_ttct :: "real option"
  p90_ttct :: "real option"
  p95_ttct :: "real option"
  tr_total_tokens :: int
  avg_tokens_per_second :: "real option"
  error_types :: "string \<rightharpoonup> int"

definition get_session_metrics :: "real \<Rightarrow> collector \<Rightarrow> int \<Rightarrow> py_error + test_result" where
  "get_session_metrics now self concurrent_users =
     bind_err (get_recent_latencies self) (\<lambda>(ttft_stats, ttct_stats).
       (let error_summary = get_error_summary self;
            total_ttct = (if recent_ttcts self \<noteq> [] then sum_list (recent_ttcts self) else 0)
        in bind_err (if total_ttct > 0
                     then py_truediv (real_of_int (total_tokens self)) total_ttct
                     else Inr 0)
             (\<lambda>tokens_per_second.
                Inr \<lparr> tr_timestamp = now,
                      tr_concurrent_users = concurrent_users,
                      tr_success_count = success_count self,
                      tr_failure_count = failure_count self,
                      total_requests = total_request_count self,
                      tr_timeout_count = timeout_count self,
                      avg_ttft = map_of ttft_stats ''avg'',
                      avg_ttct = map_of ttct_stats ''avg'',
                      p50_ttft = map_of ttft_stats ''median'',
                      p90_ttft = map_of ttft_stats ''p90'',
                      p95_ttft = map_of ttft_stats ''p95'',
                      p50_ttct = map_of ttct_stats ''median'',
                      p90_ttct = map_of ttct_stats ''p90'',
                      p95_ttct = map_of ttct_stats ''p95'',
                      tr_total_tokens = total_tokens self,
                      avg_tokens_per_second = Some tokens_per_second,
                      error_types = error_summary \<rparr>)))"

subsection \<open>Vocabulary for statements about runs\<close>

text \<open>The request id that a call stores in its record, if the call has one.\<close>

fun carried_id :: "(real \<Rightarrow> string) \<Rightarrow> event \<Rightarrow> string option" where
  "carried_id fmt (now, RecordRequest endpoint method status_code ttft ttct content_length
                          is_stream request_id) =
     Some (effective_id fmt endpoint now request_id)"
| "carried_id fmt (now, RecordStreamCompletion endpoint status_code ttft ttct token_count
                          request_id) =
     Some (effective_id fmt endpoint now request_id)"
| "carried_id fmt (now, RecordError error_type error_message endpoint) = None"

fun is_record_request :: "event \<Rightarrow> bool" where
  "is_record_request (now, RecordRequest endpoint method status_code ttft ttct content_length
                             is_stream request_id) = True"
| "is_record_request (now, RecordStreamCompletion endpoint status_code ttft ttct token_count
                             request_id) = False"
| "is_record_request (now, RecordError error_type error_message endpoint) = False"

fun is_stream_completion :: "event \<Rightarrow> bool" where
  "is_stream_completion (now, RecordRequest endpoint method status_code ttft ttct
                                content_length is_stream request_id) = False"
| "is_stream_completion (now, RecordStreamCompletion endpoint status_code ttft ttct token_count
                                request_id) = True"
| "is_stream_completion (now, RecordError error_type error_message endpoint) = False"

fun is_non_stream_request :: "event \<Rightarrow> bool" where
  "is_non_stream_request (now, RecordRequest endpoint method status_code ttft ttct
                                 content_length is_stream request_id) = (\<not> is_stream)"
| "is_non_stream_request (now, RecordStreamCompletion endpoint status_code ttft ttct
                                 token_count request_id) = False"
| "is_non_stream_request (now, RecordError error_type error_message endpoint) = False"

text \<open>The status code of a call is in [200,300).\<close>

fun has_success_status :: "event \<Rightarrow> bool" where
  "has_success_status (now, RecordRequest endpoint method status_code ttft ttct content_length
                              is_stream request_id) = is_success status_code"
| "has_success_status (now, RecordStreamCompletion endpoint status_code ttft ttct token_count
                              request_id) = is_success status_code"
| "has_success_status (now, RecordError error_type error_message endpoint) = False"

fun token_count_of :: "event \<Rightarrow> int" where
  "token_count_of (now, RecordRequest endpoint method status_code ttft ttct content_length
                          is_stream request_id) = 0"
| "token_count_of (now, RecordStreamCompletion endpoint status_code ttft ttct token_count
                          request_id) = token_count"
| "token_count_of (now, RecordError error_type error_message endpoint) = 0"

text \<open>A call of \<^verbatim>\<open>record_stream_completion\<close> that stores request id \<open>r\<close>.\<close>

definition completes :: "(real \<Rightarrow> string) \<Rightarrow> string \<Rightarrow> event \<Rightarrow> bool" where
  "completes fmt r e \<longleftrightarrow> is_stream_completion e \<and> carried_id fmt e = Some r"

text \<open>
  A completion report that stores request id \<open>r\<close>: a \<^verbatim>\<open>record_stream_completion\<close>, or a
  \<^verbatim>\<open>record_request\<close> of a call that is not streaming (streaming calls are completed by
  \<^verbatim>\<open>record_stream_completion\<close>).
\<close>

definition reports_completion :: "(real \<Rightarrow> string) \<Rightarrow> string \<Rightarrow> event \<Rightarrow> bool" where
  "reports_completion fmt r e \<longleftrightarrow>
     (is_stream_completion e \<or> is_non_stream_request e) \<and> carried_id fmt e = Some r"

text \<open>The success/failure total.\<close>

definition counted :: "collector \<Rightarrow> int" where
  "counted self = success_count self + failure_count self"

text \<open>
  \<open>increments_by P f fmt self es\<close>: by how much the calls among \<open>es\<close> that satisfy \<open>P\<close>
  change the counter \<open>f\<close> in total, when \<open>es\<close> runs from \<open>self\<close>.
\<close>

fun increments_by ::
  "(event \<Rightarrow> bool) \<Rightarrow> (collector \<Rightarrow> int) \<Rightarrow> (real \<Rightarrow> string) \<Rightarrow> collector \<Rightarrow> event list \<Rightarrow> int" where
  "increments_by P f fmt self [] = 0"
| "increments_by P f fmt self (e # es) =
     (if P e then f (apply_op fmt self e) - f self else 0)
       + increments_by P f fmt (apply_op fmt self e) es"

text \<open>The samples that a run pushes into each of the three deques, in order.\<close>

fun request_timestamps :: "event list \<Rightarrow> real list" where
  "request_timestamps [] = []"
| "request_timestamps ((now, RecordRequest endpoint method status_code ttft ttct content_length
                                is_stream request_id) # es) = now # request_timestamps es"
| "request_timestamps (e # es) = request_timestamps es"

fun ttft_samples :: "event list \<Rightarrow> real list" where
  "ttft_samples [] = []"
| "ttft_samples ((now, RecordRequest endpoint method status_code (Some ttft) ttct content_length
                          is_stream request_id) # es) = ttft # ttft_samples es"
| "ttft_samples ((now, RecordStreamCompletion endpoint status_code ttft ttct token_count
                          request_id) # es) = ttft # ttft_samples es"
| "ttft_samples (e # es) = ttft_samples es"

fun ttct_samples :: "event list \<Rightarrow> real list" where
  "ttct_samples [] = []"
| "ttct_samples ((now, RecordRequest endpoint method status_code ttft ttct content_length
                          is_stream request_id) # es) = ttct # ttct_samples es"
| "ttct_samples ((now, RecordStreamCompletion endpoint status_code ttft ttct token_count
                          request_id) # es) = ttct # ttct_samples es"
| "ttct_samples (e # es) = ttct_samples es"

text \<open>The calls that \<^verbatim>\<open>record_request\<close> tallies at once: those that are not streaming.\<close>

definition tallied_success :: "event \<Rightarrow> bool" where
  "tallied_success e \<longleftrightarrow> is_non_stream_request e \<and> has_success_status e"

definition tallied_failure :: "event \<Rightarrow> bool" where
  "tallied_failure e \<longleftrightarrow> is_non_stream_request e \<and> \<not> has_success_status e"

text \<open>
  The statistics as the specification words them: the percentile by linear interpolation
  over the sorted sample, at position \<open>(n - 1) * q / 100\<close> between the two neighbouring
  order statistics; the median as the 50th percentile.
\<close>

definition linear_percentile :: "real list \<Rightarrow> real \<Rightarrow> real" where
  "linear_percentile a q =
     (let s = sort a;
          pos = real (length a - 1) * q / 100;
          i = nat \<lfloor>pos\<rfloor>;
          w = pos - real i
      in if i + 1 < length a then (1 - w) * s ! i + w * s ! (i + 1) else s ! (length a - 1))"

definition stats_table :: "real list \<Rightarrow> stats" where
  "stats_table a =
     [(''avg'', sum_list a / real (length a)),
      (''median'', linear_percentile a 50),
      (''p90'', linear_percentile a 90),
      (''p95'', linear_percentile a 95),
      (''min'', Min (set a)),
      (''max'', Max (set a))]"

text \<open>A concrete float formatting for the examples (any function will do).\<close>

definition fmt0 :: "real \<Rightarrow> string" where
  "fmt0 t = ''t''"

text \<open>
  A collector that has recorded two requests, at clock readings 0 and 100.
\<close>

definition two_requests_100s_apart :: collector where
  "two_requests_100s_apart =
     run fmt0 (init 0)
       [(0, RecordRequest ''/a'' ''GET'' 200 None 1 10 False None),
        (100, RecordRequest ''/a'' ''GET'' 200 None 1 10 False None)]"

section \<open>Properties\<close>

subsection \<open>The counters never decrease\<close>

lemmas op_defs = record_request_def record_stream_completion_def record_error_def

lemma apply_op_success_count_mono: "success_count self \<le> success_count (apply_op fmt self e)"
  by (cases "(fmt, self, e)" rule: apply_op.cases)
     (simp_all add: record_request_def record_stream_completion_def record_error_def Let_def
        split: option.splits)

lemma apply_op_failure_count_mono: "failure_count self \<le> failure_count (apply_op fmt self e)"
  by (cases "(fmt, self, e)" rule: apply_op.cases)
     (simp_all add: record_request_def record_stream_completion_def record_error_def Let_def
        split: option.splits)

lemma run_success_count_mono: "success_count self \<le> success_count (run fmt self es)"
proof (induction es arbitrary: self)
  case Nil
  show ?case by simp
next
  case (Cons e es)
  have "success_count self \<le> success_count (apply_op fmt self e)"
    by (rule apply_op_success_count_mono)
  also have "\<dots> \<le> success_count (run fmt (apply_op fmt self e) es)"
    by (rule Cons.IH)
  finally show ?case by simp
qed

lemma run_failure_count_mono: "failure_count self \<le> failure_count (run fmt self es)"
proof (induction es arbitrary: self)
  case Nil
  show ?case by simp
next
  case (Cons e es)
  have "failure_count self \<le> failure_count (apply_op fmt self e)"
    by (rule apply_op_failure_count_mono)
  also have "\<dots> \<le> failure_count (run fmt (apply_op fmt self e) es)"
    by (rule Cons.IH)
  finally show ?case by simp
qed

subsection \<open>Success rate\<close>

lemma get_success_rate_value:
  "get_success_rate self =
     Inr (if success_count self + failure_count self = 0 then 0
          else real_of_int (success_count self)
                 / real_of_int (success_count self + failure_count self))"
  by (simp add: get_success_rate_def py_truediv_def Let_def)

text \<open>
  Claim C4. In every state that a run reaches from a new collector both counters are at
  least 0; \<^verbatim>\<open>get_success_rate\<close> returns successes / (successes + failures) when that sum is
  positive and 0.0 when it is 0, as on a new collector. In no state at all does it raise:
  the result is always a value, never \<^verbatim>\<open>ZeroDivisionError\<close>.
\<close>

theorem success_rate_value_or_zero:
  "0 \<le> success_count (run fmt (init t0) es) \<and> 0 \<le> failure_count (run fmt (init t0) es)
   \<and> (success_count (run fmt (init t0) es) + failure_count (run fmt (init t0) es) > 0 \<longrightarrow>
        get_success_rate (run fmt (init t0) es) =
          Inr (real_of_int (success_count (run fmt (init t0) es))
                 / real_of_int (success_count (run fmt (init t0) es)
                                  + failure_count (run fmt (init t0) es))))
   \<and> (success_count (run fmt (init t0) es) + failure_count (run fmt (init t0) es) = 0 \<longrightarrow>
        get_success_rate (run fmt (init t0) es) = Inr 0)
   \<and> get_success_rate (init t0) = Inr 0
   \<and> (\<forall>self. \<exists>v. get_success_rate self = Inr v)"
proof -
  have s: "0 \<le> success_count (run fmt (init t0) es)"
    using run_success_count_mono [of "init t0" fmt es] by (simp add: init_def)
  have f: "0 \<le> failure_count (run fmt (init t0) es)"
    using run_failure_count_mono [of "init t0" fmt es] by (simp add: init_def)
  have i: "get_success_rate (init t0) = Inr 0"
    by (simp add: get_success_rate_value init_def)
  show ?thesis using s f i by (simp add: get_success_rate_value)
qed

theorem success_rate_value_or_zero_witness:
  "get_success_rate (run fmt0 (init 0)
      [(1, RecordRequest ''/a'' ''GET'' 200 None 1 10 False None),
       (2, RecordRequest ''/a'' ''GET'' 500 None 1 10 False None)]) = Inr (1 / 2)
   \<and> get_success_rate (run fmt0 (init 0) []) = Inr 0"
  using success_rate_value_or_zero [of fmt0 0
      "[(1, RecordRequest ''/a'' ''GET'' 200 None 1 10 False None),
        (2, RecordRequest ''/a'' ''GET'' 500 None 1 10 False None)]"]
    success_rate_value_or_zero [of fmt0 0 "[]"]
  by (simp add: record_request_def init_def Let_def is_success_def)

subsection \<open>The snapshot never raises\<close>


lemma np_min_Min: "a \<noteq> [] \<Longrightarrow> np_min a = Inr (Min (set a))"
proof (cases a)
  case Nil
  assume "a \<noteq> []"
  with Nil show ?thesis by simp
next
  case (Cons x xs)
  show ?thesis unfolding Cons by (simp only: np_min.simps Min.set_eq_fold)
qed

lemma np_max_Max: "a \<noteq> [] \<Longrightarrow> np_max a = Inr (Max (set a))"
proof (cases a)
  case Nil
  assume "a \<noteq> []"
  with Nil show ?thesis by simp
next
  case (Cons x xs)
  show ?thesis unfolding Cons by (simp only: np_max.simps Max.set_eq_fold)
qed

lemma py_min_Min: "a \<noteq> [] \<Longrightarrow> py_min a = Inr (Min (set a))"
proof (cases a)
  case Nil
  assume "a \<noteq> []"
  with Nil show ?thesis by simp
next
  case (Cons x xs)
  show ?thesis unfolding Cons by (simp only: py_min.simps Min.set_eq_fold)
qed

lemma window_stats_Inr:
  "a \<noteq> [] \<Longrightarrow> \<exists>avg median p90 p95.
     np_mean a = Inr avg \<and> np_median a = Inr median \<and> np_percentile a 90 = Inr p90
     \<and> np_percentile a 95 = Inr p95
     \<and> window_stats a = Inr [(''avg'', avg), (''median'', median), (''p90'', p90), (''p95'', p95),
            (''min'', Min (set a)), (''max'', Max (set a))]"
  by (simp add: window_stats_def bind_err_def np_mean_def np_median_def np_percentile_def
        np_min_Min np_max_Max)

lemma get_recent_latencies_Inr:
  "\<exists>ttft_stats ttct_stats. get_recent_latencies self = Inr (ttft_stats, ttct_stats)"
proof -
  obtain a where a: "(if recent_ttfts self \<noteq> [] then window_stats (recent_ttfts self) else Inr [])
                       = Inr a"
    using window_stats_Inr [of "recent_ttfts self"] by (cases "recent_ttfts self = []") auto
  obtain b where b: "(if recent_ttcts self \<noteq> [] then window_stats (recent_ttcts self) else Inr [])
                       = Inr b"
    using window_stats_Inr [of "recent_ttcts self"] by (cases "recent_ttcts self = []") auto
  show ?thesis
    unfolding get_recent_latencies_def a b by (simp add: bind_err_def)
qed

lemma get_session_metrics_Inr:
  "\<exists>tr. get_session_metrics now self cu = Inr tr
     \<and> tr_concurrent_users tr = cu
     \<and> tr_success_count tr = success_count self
     \<and> tr_failure_count tr = failure_count self
     \<and> total_requests tr = total_request_count self
     \<and> tr_timeout_count tr = timeout_count self
     \<and> tr_total_tokens tr = total_tokens self
     \<and> error_types tr = get_error_summary self
     \<and> avg_tokens_per_second tr =
          Some (if sum_list (recent_ttcts self) > 0
                then real_of_int (total_tokens self) / sum_list (recent_ttcts self) else 0)"
proof -
  obtain a b where ab: "get_recent_latencies self = Inr (a, b)"
    using get_recent_latencies_Inr by blast
  show ?thesis
    unfolding get_session_metrics_def ab
    by (simp add: bind_err_def py_truediv_def Let_def)
qed

subsection \<open>Average tokens per second\<close>

text \<open>
  Claim C6. In every state \<^verbatim>\<open>get_session_metrics\<close> returns a result (it does not raise)
  that echoes \<open>concurrent_users\<close> and whose \<open>avg_tokens_per_second\<close> is the accumulated
  token count divided by the sum of the samples now in the TTCT window, and 0 when that sum
  is not positive. After one \<^verbatim>\<open>record_stream_completion\<close> with request id r1, ttft 0.2,
  ttct 1.0 and 50 tokens on a new collector it is 50.
\<close>

theorem avg_tokens_per_second_value:
  "(\<exists>tr. get_session_metrics now self concurrent_users = Inr tr
      \<and> tr_concurrent_users tr = concurrent_users
      \<and> avg_tokens_per_second tr =
           Some (if sum_list (recent_ttcts self) > 0
                 then real_of_int (total_tokens self) / sum_list (recent_ttcts self) else 0))
   \<and> (\<exists>tr. get_session_metrics now
              (record_stream_completion fmt t1 (init t0) endpoint status_code (2 / 10) 1 50
                 (Some ''r1''))
              concurrent_users = Inr tr
         \<and> avg_tokens_per_second tr = Some 50)"
proof -
  let ?s = "record_stream_completion fmt t1 (init t0) endpoint status_code (2 / 10) 1 50
              (Some ''r1'')"
  have t: "total_tokens ?s = 50"
    by (simp add: record_stream_completion_def init_def Let_def)
  have w: "recent_ttcts ?s = [1]"
    by (simp add: record_stream_completion_def init_def Let_def deque_append_def
          recent_ttcts_maxlen_def)
  show ?thesis
    using get_session_metrics_Inr [of now self concurrent_users]
      get_session_metrics_Inr [of now ?s concurrent_users]
    unfolding t w by auto
qed

theorem avg_tokens_per_second_value_witness:
  "\<exists>tr. get_session_metrics 9
           (record_stream_completion fmt0 1 (init 0) ''/chat'' 200 (2 / 10) 1 50 (Some ''r1'')) 4
         = Inr tr
       \<and> avg_tokens_per_second tr = Some 50"
  using avg_tokens_per_second_value [of 9 "init 0" 4 fmt0 1 0 "''/chat''" 200]
  by blast

subsection \<open>Errors\<close>



subsection \<open>What \<^verbatim>\<open>record_request\<close> tallies\<close>
lemma apply_op_request_success:
  "is_record_request e \<Longrightarrow>
     success_count (apply_op fmt self e) = success_count self + (if tallied_success e then 1 else 0)"
  by (cases "(fmt, self, e)" rule: apply_op.cases)
     (simp_all add: op_defs Let_def tallied_success_def split: option.splits)

lemma apply_op_request_failure:
  "is_record_request e \<Longrightarrow>
     failure_count (apply_op fmt self e) = failure_count self + (if tallied_failure e then 1 else 0)"
  by (cases "(fmt, self, e)" rule: apply_op.cases)
     (simp_all add: op_defs Let_def tallied_failure_def split: option.splits)

lemma run_requests_success:
  "\<forall>e\<in>set es. is_record_request e \<Longrightarrow>
     success_count (run fmt self es) = success_count self + int (length (filter tallied_success es))"
  by (induction es arbitrary: self) (simp_all add: apply_op_request_success)

lemma run_requests_failure:
  "\<forall>e\<in>set es. is_record_request e \<Longrightarrow>
     failure_count (run fmt self es) = failure_count self + int (length (filter tallied_failure es))"
  by (induction es arbitrary: self) (simp_all add: apply_op_request_failure)

lemma tallied_partition:
  "length (filter tallied_success es) + length (filter tallied_failure es)
     = length (filter is_non_stream_request es)"
  by (induction es) (auto simp: tallied_success_def tallied_failure_def)

text \<open>
  Claim C3. In a run that consists of \<^verbatim>\<open>record_request\<close> calls only, from any state, the
  success count grows by the number of calls that are not streaming and have a status in
  [200,300), the failure count by the number of the other calls that are not streaming;
  streaming calls tally nothing. From a new or a reset collector the two counts therefore
  add up to the number of non-streaming calls. Three non-streaming calls with status 200,
  200 and 500 give success 2, failure 1 and success rate 2/3. (The request ids need not
  be distinct for this: they play no part in \<^verbatim>\<open>record_request\<close>'s tally.)
\<close>

theorem record_request_tallies:
  assumes "\<forall>e\<in>set es. is_record_request e"
  shows "success_count (run fmt self es)
           = success_count self + int (length (filter tallied_success es))
       \<and> failure_count (run fmt self es)
           = failure_count self + int (length (filter tallied_failure es))
       \<and> success_count (run fmt (init t0) es) + failure_count (run fmt (init t0) es)
           = int (length (filter is_non_stream_request es))
       \<and> success_count (run fmt (reset t0 self) es) + failure_count (run fmt (reset t0 self) es)
           = int (length (filter is_non_stream_request es))
       \<and> success_count (run fmt (init t0)
            [(t1, RecordRequest e1 m1 200 f1 c1 l1 False r1),
             (t2, RecordRequest e2 m2 200 f2 c2 l2 False r2),
             (t3, RecordRequest e3 m3 500 f3 c3 l3 False r3)]) = 2
       \<and> failure_count (run fmt (init t0)
            [(t1, RecordRequest e1 m1 200 f1 c1 l1 False r1),
             (t2, RecordRequest e2 m2 200 f2 c2 l2 False r2),
             (t3, RecordRequest e3 m3 500 f3 c3 l3 False r3)]) = 1
       \<and> get_success_rate (run fmt (init t0)
            [(t1, RecordRequest e1 m1 200 f1 c1 l1 False r1),
             (t2, RecordRequest e2 m2 200 f2 c2 l2 False r2),
             (t3, RecordRequest e3 m3 500 f3 c3 l3 False r3)]) = Inr (2 / 3)"
proof -
  let ?ex = "[(t1, RecordRequest e1 m1 200 f1 c1 l1 False r1),
              (t2, RecordRequest e2 m2 200 f2 c2 l2 False r2),
              (t3, RecordRequest e3 m3 500 f3 c3 l3 False r3)]"
  have ex: "\<forall>e\<in>set ?ex. is_record_request e" by simp
  have s: "success_count (run fmt (init t0) ?ex) = 2"
    unfolding run_requests_success [OF ex]
    by (simp add: init_def tallied_success_def is_success_def)
  have f: "failure_count (run fmt (init t0) ?ex) = 1"
    unfolding run_requests_failure [OF ex]
    by (simp add: init_def tallied_failure_def is_success_def)
  have r: "get_success_rate (run fmt (init t0) ?ex) = Inr (2 / 3)"
    unfolding get_success_rate_value s f by simp
  have i: "success_count (run fmt (init t0) es) + failure_count (run fmt (init t0) es)
             = int (length (filter is_non_stream_request es))"
    unfolding run_requests_success [OF assms] run_requests_failure [OF assms]
    using tallied_partition [of es] by (simp add: init_def)
  have z: "success_count (run fmt (reset t0 self) es) + failure_count (run fmt (reset t0 self) es)
             = int (length (filter is_non_stream_request es))"
    unfolding run_requests_success [OF assms] run_requests_failure [OF assms]
    using tallied_partition [of es] by (simp add: reset_def)
  show ?thesis
    using run_requests_success [OF assms, of fmt self] run_requests_failure [OF assms, of fmt self]
      i z s f r
    by blast
qed

theorem record_request_tallies_witness:
  "success_count (run fmt0 (init 0)
      [(1, RecordRequest ''/a'' ''GET'' 200 None 1 10 False (Some ''r1'')),
       (2, RecordRequest ''/b'' ''POST'' 404 None 1 10 False (Some ''r2'')),
       (3, RecordRequest ''/c'' ''POST'' 200 (Some 1) 2 10 True (Some ''r3''))]) = 1
   \<and> failure_count (run fmt0 (init 0)
      [(1, RecordRequest ''/a'' ''GET'' 200 None 1 10 False (Some ''r1'')),
       (2, RecordRequest ''/b'' ''POST'' 404 None 1 10 False (Some ''r2'')),
       (3, RecordRequest ''/c'' ''POST'' 200 (Some 1) 2 10 True (Some ''r3''))]) = 1"
proof -
  let ?es = "[(1, RecordRequest ''/a'' ''GET'' 200 None 1 10 False (Some ''r1'')),
              (2, RecordRequest ''/b'' ''POST'' 404 None 1 10 False (Some ''r2'')),
              (3, RecordRequest ''/c'' ''POST'' 200 (Some 1) 2 10 True (Some ''r3''))]"
  have h: "\<forall>e\<in>set ?es. is_record_request e" by simp
  show ?thesis
    using record_request_tallies [OF h, of fmt0 "init 0"]
    by (simp add: init_def tallied_success_def tallied_failure_def is_success_def)
qed

subsection \<open>The total-request counter\<close>


lemma apply_op_total_request_count:
  "total_request_count (apply_op fmt self e) =
     total_request_count self + (if is_record_request e then 1 else 0)"
  by (cases "(fmt, self, e)" rule: apply_op.cases)
     (simp_all add: op_defs Let_def split: option.splits)

lemma run_total_request_count:
  "total_request_count (run fmt self es) =
     total_request_count self + int (length (filter is_record_request es))"
  by (induction es arbitrary: self) (simp_all add: apply_op_total_request_count)

text \<open>
  Claim C10. \<^verbatim>\<open>record_stream_completion\<close> leaves the total-request counter as it is; a
  run from any state adds to it the number of its \<^verbatim>\<open>record_request\<close> calls, streaming or
  not, so the \<open>total_requests\<close> of the session result of a run from a new collector is that
  number. A single stream completion on a new collector gives \<open>total_requests = 0\<close>, one
  counted success or failure and its tokens in the total: the success and failure
  counts together exceed \<open>total_requests\<close>.
\<close>

theorem total_requests_counts_record_request:
  "total_request_count
       (record_stream_completion fmt now self endpoint status_code ttft ttct token_count
          request_id)
     = total_request_count self
   \<and> total_request_count (run fmt self es)
       = total_request_count self + int (length (filter is_record_request es))
   \<and> (\<exists>tr. get_session_metrics now (run fmt (init t0) es) concurrent_users = Inr tr
         \<and> total_requests tr = int (length (filter is_record_request es)))
   \<and> (\<exists>tr. get_session_metrics now
              (run fmt (init t0)
                 [(t1, RecordStreamCompletion endpoint status_code ttft ttct token_count
                         request_id)])
              concurrent_users = Inr tr
         \<and> total_requests tr = 0
         \<and> tr_success_count tr + tr_failure_count tr = 1
         \<and> tr_total_tokens tr = token_count
         \<and> tr_success_count tr + tr_failure_count tr > total_requests tr)"
proof -
  let ?s = "run fmt (init t0)
              [(t1, RecordStreamCompletion endpoint status_code ttft ttct token_count request_id)]"
  have a: "total_request_count
       (record_stream_completion fmt now self endpoint status_code ttft ttct token_count
          request_id)
     = total_request_count self"
    by (simp add: record_stream_completion_def Let_def)
  have c: "\<exists>tr. get_session_metrics now (run fmt (init t0) es) concurrent_users = Inr tr
         \<and> total_requests tr = int (length (filter is_record_request es))"
    using get_session_metrics_Inr [of now "run fmt (init t0) es" concurrent_users]
    by (auto simp: run_total_request_count init_def)
  have d1: "total_request_count ?s = 0" "success_count ?s + failure_count ?s = 1"
    "total_tokens ?s = token_count"
    by (simp_all add: record_stream_completion_def Let_def init_def)
  have d: "\<exists>tr. get_session_metrics now ?s concurrent_users = Inr tr
         \<and> total_requests tr = 0
         \<and> tr_success_count tr + tr_failure_count tr = 1
         \<and> tr_total_tokens tr = token_count
         \<and> tr_success_count tr + tr_failure_count tr > total_requests tr"
    using get_session_metrics_Inr [of now ?s concurrent_users] d1 by auto
  show ?thesis using a run_total_request_count [of fmt self es] c d by blast
qed

theorem total_requests_counts_record_request_witness:
  "\<exists>tr. get_session_metrics 9
          (run fmt0 (init 0)
             [(1, RecordRequest ''/c'' ''POST'' 200 (Some 1) 2 10 True (Some ''r'')),
              (2, RecordStreamCompletion ''/c'' 200 1 2 7 (Some ''r''))]) 4 = Inr tr
        \<and> total_requests tr = 1"
  using total_requests_counts_record_request [of fmt0 9 "init 0" "''/c''" 200 1 2 7 "Some ''r''"
      "[(1, RecordRequest ''/c'' ''POST'' 200 (Some 1) 2 10 True (Some ''r'')),
        (2, RecordStreamCompletion ''/c'' 200 1 2 7 (Some ''r''))]" 0 4 1]
  by simp

subsection \<open>The bounded windows\<close>

text \<open>A deque that is within its capacity keeps the last \<open>maxlen\<close> elements pushed.\<close>


lemma deque_append_drop:
  assumes "length d \<le> c"
  shows "deque_append c d x = drop (length d + 1 - c) (d @ [x])"
proof (cases "length d = c")
  case True
  have "tl (d @ [x]) = drop (Suc 0) (d @ [x])"
    by (simp only: drop_Suc drop_0)
  with True show ?thesis
    by (simp add: deque_append_def Let_def del: tl_append2 drop_append)
next
  case False
  with assms have "length d < c" by simp
  then show ?thesis by (simp add: deque_append_def Let_def)
qed

lemma length_deque_append: "length d \<le> c \<Longrightarrow> length (deque_append c d x) \<le> c"
  by (simp add: deque_append_drop)

lemma drop_drop_append:
  assumes "j \<le> length ys"
  shows "drop a (drop j ys @ xs) = drop (a + j) (ys @ xs)"
proof -
  have "drop j ys @ xs = drop j (ys @ xs)" using assms by simp
  then show ?thesis by (simp only: drop_drop)
qed

lemma deque_extend_drop:
  "length d \<le> c \<Longrightarrow> deque_extend c d xs = drop (length d + length xs - c) (d @ xs)"
proof (induction xs arbitrary: d)
  case Nil
  then show ?case by simp
next
  case (Cons x xs)
  let ?j = "length d + 1 - c"
  let ?d = "deque_append c d x"
  have d: "?d = drop ?j (d @ [x])"
    using Cons.prems by (rule deque_append_drop)
  have len: "length ?d \<le> c"
    using Cons.prems by (rule length_deque_append)
  have j: "?j \<le> length (d @ [x])" by simp
  have idx: "length ?d + length xs - c + ?j = length d + length (x # xs) - c"
    using Cons.prems unfolding d by (simp only: length_drop length_append list.size)
  have "deque_extend c d (x # xs) = deque_extend c ?d xs" by simp
  also have "\<dots> = drop (length ?d + length xs - c) (?d @ xs)"
    using len by (rule Cons.IH)
  also have "\<dots> = drop (length ?d + length xs - c) (drop ?j (d @ [x]) @ xs)"
    using d by simp
  also have "\<dots> = drop (length ?d + length xs - c + ?j) ((d @ [x]) @ xs)"
    using j by (rule drop_drop_append)
  also have "\<dots> = drop (length d + length (x # xs) - c) (d @ x # xs)"
    unfolding idx by simp
  finally show ?case .
qed

lemma deque_extend_empty: "deque_extend c [] xs = drop (length xs - c) xs"
  using deque_extend_drop [of "[]" c xs] by simp

lemma apply_op_request_times:
  "request_times (apply_op fmt self e) =
     deque_extend request_times_maxlen (request_times self) (request_timestamps [e])"
  by (cases "(fmt, self, e)" rule: apply_op.cases)
     (simp_all add: op_defs Let_def split: option.splits)

lemma apply_op_recent_ttfts:
  "recent_ttfts (apply_op fmt self e) =
     deque_extend recent_ttfts_maxlen (recent_ttfts self) (ttft_samples [e])"
  by (cases "(fmt, self, e)" rule: apply_op.cases)
     (simp_all add: op_defs Let_def split: option.splits)

lemma apply_op_recent_ttcts:
  "recent_ttcts (apply_op fmt self e) =
     deque_extend recent_ttcts_maxlen (recent_ttcts self) (ttct_samples [e])"
  by (cases "(fmt, self, e)" rule: apply_op.cases)
     (simp_all add: op_defs Let_def split: option.splits)

lemma deque_extend_append:
  "deque_extend c d (xs @ ys) = deque_extend c (deque_extend c d xs) ys"
  by (induction xs arbitrary: d) simp_all

lemma request_timestamps_Cons:
  "request_timestamps (e # es) = request_timestamps [e] @ request_timestamps es"
  by (cases "(e # es)" rule: request_timestamps.cases) simp_all

lemma ttft_samples_Cons: "ttft_samples (e # es) = ttft_samples [e] @ ttft_samples es"
  by (cases "(e # es)" rule: ttft_samples.cases) simp_all

lemma ttct_samples_Cons: "ttct_samples (e # es) = ttct_samples [e] @ ttct_samples es"
  by (cases "(e # es)" rule: ttct_samples.cases) simp_all

lemma run_request_times:
  "request_times (run fmt self es) =
     deque_extend request_times_maxlen (request_times self) (request_timestamps es)"
proof (induction es arbitrary: self)
  case Nil
  show ?case by simp
next
  case (Cons e es)
  show ?case
    unfolding run.simps Cons.IH apply_op_request_times
    by (subst (2) request_timestamps_Cons) (simp only: deque_extend_append)
qed

lemma run_recent_ttfts:
  "recent_ttfts (run fmt self es) =
     deque_extend recent_ttfts_maxlen (recent_ttfts self) (ttft_samples es)"
proof (induction es arbitrary: self)
  case Nil
  show ?case by simp
next
  case (Cons e es)
  show ?case
    unfolding run.simps Cons.IH apply_op_recent_ttfts
    by (subst (2) ttft_samples_Cons) (simp only: deque_extend_append)
qed

lemma run_recent_ttcts:
  "recent_ttcts (run fmt self es) =
     deque_extend recent_ttcts_maxlen (recent_ttcts self) (ttct_samples es)"
proof (induction es arbitrary: self)
  case Nil
  show ?case by simp
next
  case (Cons e es)
  show ?case
    unfolding run.simps Cons.IH apply_op_recent_ttcts
    by (subst (2) ttct_samples_Cons) (simp only: deque_extend_append)
qed

lemma request_timestamps_replicate:
  "request_timestamps
     (replicate n (now, RecordRequest endpoint method status_code ttft ttct content_length
                          is_stream request_id))
     = replicate n now"
  by (induction n) simp_all

lemma ttft_samples_replicate:
  "ttft_samples
     (replicate n (now, RecordStreamCompletion endpoint status_code ttft ttct token_count
                          request_id))
     = replicate n ttft"
  by (induction n) simp_all

lemma ttct_samples_replicate:
  "ttct_samples
     (replicate n (now, RecordStreamCompletion endpoint status_code ttft ttct token_count
                          request_id))
     = replicate n ttct"
  by (induction n) simp_all

text \<open>
  Claim C5. In every state that a run reaches from a new collector, the window of request
  timestamps holds the last 1000 timestamps that \<^verbatim>\<open>record_request\<close> pushed, and the TTFT
  and TTCT windows hold the last 100 samples pushed into each, in the order pushed; none
  holds more than its capacity. Once \<open>1000 + k\<close> timestamps (or \<open>100 + k\<close> samples) have been
  pushed, exactly 1000 (or 100) remain, and they are the pushes \<open>k + 1\<close> to the last: the
  oldest \<open>k\<close> are gone. The same holds of a deque of any capacity \<open>c\<close>: pushing into an empty
  one never leaves more than \<open>c\<close>; after \<open>c + k\<close> pushes exactly \<open>c\<close> remain, the samples
  \<open>k + 1\<close> to \<open>c + k\<close> in the order pushed (position \<open>i\<close> holds what was pushed as number
  \<open>k + i\<close>, counting from 0).
\<close>

theorem recent_windows_bounded_fifo:
  "request_times (run fmt (init t0) es)
     = deque_extend request_times_maxlen [] (request_timestamps es)
   \<and> recent_ttfts (run fmt (init t0) es) = deque_extend recent_ttfts_maxlen [] (ttft_samples es)
   \<and> recent_ttcts (run fmt (init t0) es) = deque_extend recent_ttcts_maxlen [] (ttct_samples es)
   \<and> length (request_times (run fmt (init t0) es)) \<le> 1000
   \<and> length (recent_ttfts (run fmt (init t0) es)) \<le> 100
   \<and> length (recent_ttcts (run fmt (init t0) es)) \<le> 100
   \<and> length (deque_extend c [] xs) \<le> c
   \<and> (length xs = c + k \<longrightarrow>
        length (deque_extend c [] xs) = c
        \<and> deque_extend c [] xs = drop k xs
        \<and> (\<forall>i<c. deque_extend c [] xs ! i = xs ! (k + i)))
   \<and> request_times (run fmt (init t0) es)
       = drop (length (request_timestamps es) - 1000) (request_timestamps es)
   \<and> recent_ttfts (run fmt (init t0) es)
       = drop (length (ttft_samples es) - 100) (ttft_samples es)
   \<and> recent_ttcts (run fmt (init t0) es)
       = drop (length (ttct_samples es) - 100) (ttct_samples es)
   \<and> length (request_times (run fmt (init t0) es)) = min 1000 (length (request_timestamps es))
   \<and> length (recent_ttfts (run fmt (init t0) es)) = min 100 (length (ttft_samples es))
   \<and> length (recent_ttcts (run fmt (init t0) es)) = min 100 (length (ttct_samples es))
   \<and> (length (request_timestamps es) = 1000 + kr \<longrightarrow>
        length (request_times (run fmt (init t0) es)) = 1000
        \<and> request_times (run fmt (init t0) es) = drop kr (request_timestamps es)
        \<and> (\<forall>i<1000. request_times (run fmt (init t0) es) ! i
                        = request_timestamps es ! (kr + i)))
   \<and> (length (ttft_samples es) = 100 + kf \<longrightarrow>
        length (recent_ttfts (run fmt (init t0) es)) = 100
        \<and> recent_ttfts (run fmt (init t0) es) = drop kf (ttft_samples es)
        \<and> (\<forall>i<100. recent_ttfts (run fmt (init t0) es) ! i = ttft_samples es ! (kf + i)))
   \<and> (length (ttct_samples es) = 100 + kc \<longrightarrow>
        length (recent_ttcts (run fmt (init t0) es)) = 100
        \<and> recent_ttcts (run fmt (init t0) es) = drop kc (ttct_samples es)
        \<and> (\<forall>i<100. recent_ttcts (run fmt (init t0) es) ! i = ttct_samples es ! (kc + i)))"
proof -
  have a: "request_times (run fmt (init t0) es)
     = deque_extend request_times_maxlen [] (request_timestamps es)"
    unfolding run_request_times by (simp add: init_def)
  have b: "recent_ttfts (run fmt (init t0) es)
     = deque_extend recent_ttfts_maxlen [] (ttft_samples es)"
    unfolding run_recent_ttfts by (simp add: init_def)
  have c: "recent_ttcts (run fmt (init t0) es)
     = deque_extend recent_ttcts_maxlen [] (ttct_samples es)"
    unfolding run_recent_ttcts by (simp add: init_def)
  have da: "request_times (run fmt (init t0) es)
       = drop (length (request_timestamps es) - 1000) (request_timestamps es)"
    unfolding a deque_extend_empty by (simp add: request_times_maxlen_def)
  have db: "recent_ttfts (run fmt (init t0) es)
       = drop (length (ttft_samples es) - 100) (ttft_samples es)"
    unfolding b deque_extend_empty by (simp add: recent_ttfts_maxlen_def)
  have dc: "recent_ttcts (run fmt (init t0) es)
       = drop (length (ttct_samples es) - 100) (ttct_samples es)"
    unfolding c deque_extend_empty by (simp add: recent_ttcts_maxlen_def)
  have ma: "length (request_times (run fmt (init t0) es))
              = min 1000 (length (request_timestamps es))"
    unfolding da by simp
  have mb: "length (recent_ttfts (run fmt (init t0) es)) = min 100 (length (ttft_samples es))"
    unfolding db by simp
  have mc: "length (recent_ttcts (run fmt (init t0) es)) = min 100 (length (ttct_samples es))"
    unfolding dc by simp
  have la: "length (request_times (run fmt (init t0) es)) \<le> 1000"
    unfolding ma by simp
  have lb: "length (recent_ttfts (run fmt (init t0) es)) \<le> 100"
    unfolding mb by simp
  have lc: "length (recent_ttcts (run fmt (init t0) es)) \<le> 100"
    unfolding mc by simp
  have g: "length (deque_extend c [] xs) \<le> c"
    unfolding deque_extend_empty by simp
  have h: "length xs = c + k \<longrightarrow>
        length (deque_extend c [] xs) = c
        \<and> deque_extend c [] xs = drop k xs
        \<and> (\<forall>i<c. deque_extend c [] xs ! i = xs ! (k + i))"
    unfolding deque_extend_empty by simp
  have fa: "length (request_timestamps es) = 1000 + kr \<longrightarrow>
        length (request_times (run fmt (init t0) es)) = 1000
        \<and> request_times (run fmt (init t0) es) = drop kr (request_timestamps es)
        \<and> (\<forall>i<1000. request_times (run fmt (init t0) es) ! i
                        = request_timestamps es ! (kr + i))"
    unfolding da by simp
  have fb: "length (ttft_samples es) = 100 + kf \<longrightarrow>
        length (recent_ttfts (run fmt (init t0) es)) = 100
        \<and> recent_ttfts (run fmt (init t0) es) = drop kf (ttft_samples es)
        \<and> (\<forall>i<100. recent_ttfts (run fmt (init t0) es) ! i = ttft_samples es ! (kf + i))"
    unfolding db by simp
  have fc: "length (ttct_samples es) = 100 + kc \<longrightarrow>
        length (recent_ttcts (run fmt (init t0) es)) = 100
        \<and> recent_ttcts (run fmt (init t0) es) = drop kc (ttct_samples es)
        \<and> (\<forall>i<100. recent_ttcts (run fmt (init t0) es) ! i = ttct_samples es ! (kc + i))"
    unfolding dc by simp
  show ?thesis
    using a b c la lb lc g h da db dc ma mb mc fa fb fc by blast
qed

theorem recent_windows_bounded_fifo_witness:
  "request_times
     (run fmt0 (init 0)
        ((0, RecordRequest ''/a'' ''GET'' 200 None 1 10 False None)
           # replicate 1000 (1, RecordRequest ''/a'' ''GET'' 200 None 1 10 False None)))
     = replicate 1000 1
   \<and> recent_ttfts
       (run fmt0 (init 0)
          ((0, RecordStreamCompletion ''/c'' 200 7 9 5 None)
             # replicate 100 (1, RecordStreamCompletion ''/c'' 200 1 2 5 None)))
     = replicate 100 1
   \<and> recent_ttcts
       (run fmt0 (init 0)
          ((0, RecordStreamCompletion ''/c'' 200 7 9 5 None)
             # replicate 100 (1, RecordStreamCompletion ''/c'' 200 1 2 5 None)))
     = replicate 100 2
   \<and> deque_extend 3 [] [10, 20, 30, 40, 50 :: nat] = [30, 40, 50]"
proof -
  let ?rs = "(0, RecordRequest ''/a'' ''GET'' 200 None 1 10 False None)
               # replicate 1000 (1, RecordRequest ''/a'' ''GET'' 200 None 1 10 False None)"
  let ?cs = "(0, RecordStreamCompletion ''/c'' 200 7 9 5 None)
               # replicate 100 (1, RecordStreamCompletion ''/c'' 200 1 2 5 None)"
  have r: "request_timestamps ?rs = 0 # replicate 1000 1"
    by (simp add: request_timestamps_replicate)
  have f: "ttft_samples ?cs = 7 # replicate 100 1"
    by (simp add: ttft_samples_replicate)
  have c: "ttct_samples ?cs = 9 # replicate 100 2"
    by (simp add: ttct_samples_replicate)
  have hr: "length (request_timestamps ?rs) = 1000 + 1" unfolding r by simp
  have hf: "length (ttft_samples ?cs) = 100 + 1" unfolding f by simp
  have hc: "length (ttct_samples ?cs) = 100 + 1" unfolding c by simp
  have w1: "request_times (run fmt0 (init 0) ?rs) = drop 1 (request_timestamps ?rs)"
    using recent_windows_bounded_fifo [of fmt0 0 ?rs 3 "[10, 20, 30, 40, 50 :: nat]" 2 1 0 0] hr
    by blast
  have w2: "recent_ttfts (run fmt0 (init 0) ?cs) = drop 1 (ttft_samples ?cs)"
    using recent_windows_bounded_fifo [of fmt0 0 ?cs 3 "[10, 20, 30, 40, 50 :: nat]" 2 0 1 1] hf
    by blast
  have w3: "recent_ttcts (run fmt0 (init 0) ?cs) = drop 1 (ttct_samples ?cs)"
    using recent_windows_bounded_fifo [of fmt0 0 ?cs 3 "[10, 20, 30, 40, 50 :: nat]" 2 0 1 1] hc
    by blast
  have w4: "deque_extend 3 [] [10, 20, 30, 40, 50 :: nat] = [30, 40, 50]"
    using recent_windows_bounded_fifo [of fmt0 0 "[]" 3 "[10, 20, 30, 40, 50 :: nat]" 2 0 0 0]
    by simp
  show ?thesis
    unfolding w1 w2 w3 w4 r f c by simp
qed

subsection \<open>Stream completions and the seen-set\<close>

lemma apply_op_ids_mono:
  "r \<in> sse_request_ids self \<Longrightarrow> r \<in> sse_request_ids (apply_op fmt self e)"
  by (cases "(fmt, self, e)" rule: apply_op.cases)
     (simp_all add: op_defs Let_def split: option.splits)

lemma apply_op_completes_ids:
  "completes fmt r e \<Longrightarrow> r \<in> sse_request_ids (apply_op fmt self e)"
  by (cases "(fmt, self, e)" rule: apply_op.cases)
     (simp_all add: op_defs Let_def completes_def split: option.splits)

lemma apply_op_other_ids:
  "\<not> completes fmt r e \<Longrightarrow> r \<notin> sse_request_ids self
     \<Longrightarrow> r \<notin> sse_request_ids (apply_op fmt self e)"
  by (cases "(fmt, self, e)" rule: apply_op.cases)
     (simp_all add: op_defs Let_def completes_def split: option.splits)

lemma completes_seen:
  "completes fmt r e \<Longrightarrow> r \<in> sse_request_ids self \<Longrightarrow>
     success_count (apply_op fmt self e) = success_count self
     \<and> failure_count (apply_op fmt self e) = failure_count self"
  by (cases "(fmt, self, e)" rule: apply_op.cases)
     (simp_all add: op_defs Let_def completes_def split: option.splits)

lemma completes_fresh:
  "completes fmt r e \<Longrightarrow> r \<notin> sse_request_ids self \<Longrightarrow>
     success_count (apply_op fmt self e)
       = success_count self + (if has_success_status e then 1 else 0)
     \<and> failure_count (apply_op fmt self e)
       = failure_count self + (if has_success_status e then 0 else 1)"
  by (cases "(fmt, self, e)" rule: apply_op.cases)
     (simp_all add: op_defs Let_def completes_def split: option.splits)

lemma completes_tokens:
  "completes fmt r e \<Longrightarrow>
     total_tokens (apply_op fmt self e) = total_tokens self + token_count_of e"
  by (cases "(fmt, self, e)" rule: apply_op.cases)
     (simp_all add: op_defs Let_def completes_def split: option.splits)

lemma increments_seen:
  "r \<in> sse_request_ids self \<Longrightarrow>
     increments_by (completes fmt r) success_count fmt self es = 0
     \<and> increments_by (completes fmt r) failure_count fmt self es = 0"
proof (induction es arbitrary: self)
  case Nil
  show ?case by simp
next
  case (Cons e es)
  have "r \<in> sse_request_ids (apply_op fmt self e)"
    using Cons.prems by (rule apply_op_ids_mono)
  then show ?case
    using Cons.IH [of "apply_op fmt self e"] completes_seen [of fmt r e self] Cons.prems
    by simp
qed

lemma increments_fresh:
  "r \<notin> sse_request_ids self \<Longrightarrow> \<forall>e\<in>set es. completes fmt r e \<longrightarrow> has_success_status e \<Longrightarrow>
     increments_by (completes fmt r) success_count fmt self es
       = (if \<exists>e\<in>set es. completes fmt r e then 1 else 0)
     \<and> increments_by (completes fmt r) failure_count fmt self es = 0"
proof (induction es arbitrary: self)
  case Nil
  show ?case by simp
next
  case (Cons e es)
  show ?case
  proof (cases "completes fmt r e")
    case True
    have seen: "r \<in> sse_request_ids (apply_op fmt self e)"
      using True by (rule apply_op_completes_ids)
    have ok: "has_success_status e" using Cons.prems(2) True by simp
    show ?thesis
      using True ok increments_seen [OF seen, of fmt es] completes_fresh [OF True Cons.prems(1)]
      by simp
  next
    case False
    have fresh: "r \<notin> sse_request_ids (apply_op fmt self e)"
      using False Cons.prems(1) by (rule apply_op_other_ids)
    have rest: "\<forall>e\<in>set es. completes fmt r e \<longrightarrow> has_success_status e"
      using Cons.prems(2) by simp
    show ?thesis
      using False Cons.IH [OF fresh rest] by simp
  qed
qed

lemma increments_tokens:
  "increments_by (completes fmt r) total_tokens fmt self es
     = sum_list (map token_count_of (filter (completes fmt r) es))"
  by (induction es arbitrary: self) (simp_all add: completes_tokens)

lemma increments_counted:
  "increments_by (completes fmt r) counted fmt self es
     = (if r \<notin> sse_request_ids self \<and> (\<exists>e\<in>set es. completes fmt r e) then 1 else 0)"
proof (induction es arbitrary: self)
  case Nil
  show ?case by simp
next
  case (Cons e es)
  show ?case
  proof (cases "completes fmt r e")
    case True
    have seen: "r \<in> sse_request_ids (apply_op fmt self e)"
      using True by (rule apply_op_completes_ids)
    show ?thesis
    proof (cases "r \<in> sse_request_ids self")
      case in_ids: True
      show ?thesis
        using True in_ids seen Cons.IH [of "apply_op fmt self e"] completes_seen [OF True in_ids]
        by (simp add: counted_def)
    next
      case not_in: False
      show ?thesis
        using True not_in seen Cons.IH [of "apply_op fmt self e"] completes_fresh [OF True not_in]
        by (simp add: counted_def)
    qed
  next
    case False
    show ?thesis
    proof (cases "r \<in> sse_request_ids self")
      case in_ids: True
      then have "r \<in> sse_request_ids (apply_op fmt self e)" by (rule apply_op_ids_mono)
      then show ?thesis
        using False in_ids Cons.IH [of "apply_op fmt self e"] by simp
    next
      case not_in: False
      have "r \<notin> sse_request_ids (apply_op fmt self e)"
        using False not_in by (rule apply_op_other_ids)
      then show ?thesis
        using False not_in Cons.IH [of "apply_op fmt self e"] by simp
    qed
  qed
qed

text \<open>A new collector and a reset one have seen no request id.\<close>

lemma nothing_seen_at_start:
  "r \<notin> sse_request_ids (init t0) \<and> r \<notin> sse_request_ids (reset t0 self)"
  by (simp add: init_def reset_def)

text \<open>
  Claim C1. Take any state in which request id \<open>r\<close> has not been seen (a new collector,
  or one just reset, is such a state), and any run of
  recording calls from it in which \<^verbatim>\<open>record_stream_completion\<close> is called for \<open>r\<close> at least
  once, every time with a status in [200,300). Then those calls together raise the success
  count by exactly 1 and the failure count not at all, while the total-token count grows
  by the sum of their token counts: each call, repeated or not, adds its own. In
  particular two calls for \<open>r\<close> with status 200 raise the success count by 1, not 2, and
  the tokens by both counts.
\<close>

theorem stream_completion_tallied_once:
  assumes "r \<notin> sse_request_ids self"
    and "\<forall>e\<in>set es. completes fmt r e \<longrightarrow> has_success_status e"
    and "\<exists>e\<in>set es. completes fmt r e"
  shows "increments_by (completes fmt r) success_count fmt self es = 1
       \<and> increments_by (completes fmt r) failure_count fmt self es = 0
       \<and> increments_by (completes fmt r) total_tokens fmt self es
           = sum_list (map token_count_of (filter (completes fmt r) es))
       \<and> success_count
            (record_stream_completion fmt t2
               (record_stream_completion fmt t1 self e1 200 f1 c1 n1 (Some r))
               e2 200 f2 c2 n2 (Some r))
           = success_count self + 1
       \<and> failure_count
            (record_stream_completion fmt t2
               (record_stream_completion fmt t1 self e1 200 f1 c1 n1 (Some r))
               e2 200 f2 c2 n2 (Some r))
           = failure_count self
       \<and> total_tokens
            (record_stream_completion fmt t2
               (record_stream_completion fmt t1 self e1 200 f1 c1 n1 (Some r))
               e2 200 f2 c2 n2 (Some r))
           = total_tokens self + n1 + n2"
proof -
  have two: "success_count
            (record_stream_completion fmt t2
               (record_stream_completion fmt t1 self e1 200 f1 c1 n1 (Some r))
               e2 200 f2 c2 n2 (Some r))
           = success_count self + 1
       \<and> failure_count
            (record_stream_completion fmt t2
               (record_stream_completion fmt t1 self e1 200 f1 c1 n1 (Some r))
               e2 200 f2 c2 n2 (Some r))
           = failure_count self
       \<and> total_tokens
            (record_stream_completion fmt t2
               (record_stream_completion fmt t1 self e1 200 f1 c1 n1 (Some r))
               e2 200 f2 c2 n2 (Some r))
           = total_tokens self + n1 + n2"
    using assms(1)
    by (simp add: record_stream_completion_def Let_def effective_id_def is_success_def)
  show ?thesis
    using increments_fresh [OF assms(1) assms(2)] assms(3) increments_tokens [of fmt r self es] two
    by simp
qed


theorem stream_completion_tallied_once_witness:
  "''r'' \<notin> sse_request_ids (init 0)
   \<and> map has_success_status
         (filter (completes fmt0 ''r'')
            [(1, RecordStreamCompletion ''/c'' 200 1 2 5 (Some ''r'')),
             (2, RecordError ''network'' ''msg'' ''/c''),
             (3, RecordStreamCompletion ''/c'' 201 1 2 7 (Some ''r''))]) = [True, True]
   \<and> increments_by (completes fmt0 ''r'') success_count fmt0 (init 0)
         [(1, RecordStreamCompletion ''/c'' 200 1 2 5 (Some ''r'')),
          (2, RecordError ''network'' ''msg'' ''/c''),
          (3, RecordStreamCompletion ''/c'' 201 1 2 7 (Some ''r''))] = 1
   \<and> increments_by (completes fmt0 ''r'') total_tokens fmt0 (init 0)
         [(1, RecordStreamCompletion ''/c'' 200 1 2 5 (Some ''r'')),
          (2, RecordError ''network'' ''msg'' ''/c''),
          (3, RecordStreamCompletion ''/c'' 201 1 2 7 (Some ''r''))] = 12"
proof -
  let ?es = "[(1, RecordStreamCompletion ''/c'' 200 1 2 5 (Some ''r'')),
              (2, RecordError ''network'' ''msg'' ''/c''),
              (3, RecordStreamCompletion ''/c'' 201 1 2 7 (Some ''r''))]"
  have h1: "''r'' \<notin> sse_request_ids (init 0)" by (simp add: init_def)
  have h2: "\<forall>e\<in>set ?es. completes fmt0 ''r'' e \<longrightarrow> has_success_status e"
    by (simp add: completes_def is_success_def)
  have h3: "\<exists>e\<in>set ?es. completes fmt0 ''r'' e"
    by (simp add: completes_def effective_id_def)
  have h4: "map has_success_status (filter (completes fmt0 ''r'') ?es) = [True, True]"
    by (simp add: completes_def effective_id_def is_success_def)
  show ?thesis
    using h1 h4 stream_completion_tallied_once [OF h1 h2 h3]
    by (simp add: completes_def effective_id_def)
qed

text \<open>
  Claim C2, as stated, fails. Completion reports are the \<^verbatim>\<open>record_stream_completion\<close>
  calls and the \<^verbatim>\<open>record_request\<close> calls that are not streaming, and the latter are
  tallied at every call: two non-streaming \<^verbatim>\<open>record_request\<close> calls with request id r
  and status 200 change the success/failure total by 2 for that id.
\<close>

theorem repeated_non_stream_request_counted_twice:
  "\<not> increments_by (reports_completion fmt0 ''r'') counted fmt0 (init 0)
        [(1, RecordRequest ''/a'' ''GET'' 200 None 1 10 False (Some ''r'')),
         (2, RecordRequest ''/a'' ''GET'' 200 None 1 10 False (Some ''r''))] \<le> 1"
  by (simp add: reports_completion_def effective_id_def counted_def record_request_def Let_def
        is_success_def init_def)

text \<open>
  Claim C2, amended. In every run of recording calls, from any state, the
  \<^verbatim>\<open>record_stream_completion\<close> calls that carry request id \<open>r\<close> change the success/failure
  total by 1 in all if \<open>r\<close> was not seen before and there is such a call, and by 0
  otherwise: at most one of them is counted. A \<^verbatim>\<open>record_request\<close> with \<open>is_stream\<close> true
  never changes the total; one with \<open>is_stream\<close> false adds 1 at every call, whatever
  its request id.
\<close>

theorem stream_completion_counted_at_most_once:
  "0 \<le> increments_by (completes fmt r) counted fmt self es
   \<and> increments_by (completes fmt r) counted fmt self es \<le> 1
   \<and> increments_by (completes fmt r) counted fmt self es
       = (if r \<notin> sse_request_ids self \<and> (\<exists>e\<in>set es. completes fmt r e) then 1 else 0)
   \<and> counted (record_request fmt now self endpoint method status_code ttft ttct
                content_length True request_id) = counted self
   \<and> counted (record_request fmt now self endpoint method status_code ttft ttct
                content_length False request_id) = counted self + 1"
proof -
  have a: "counted (record_request fmt now self endpoint method status_code ttft ttct
                content_length True request_id) = counted self"
    by (simp add: record_request_def Let_def counted_def split: option.splits)
  have b: "counted (record_request fmt now self endpoint method status_code ttft ttct
                content_length False request_id) = counted self + 1"
    by (simp add: record_request_def Let_def counted_def split: option.splits)
  show ?thesis
    using a b by (simp add: increments_counted)
qed

theorem stream_completion_counted_at_most_once_witness:
  "increments_by (completes fmt0 ''r'') counted fmt0 (init 0)
     [(1, RecordRequest ''/c'' ''POST'' 200 (Some 1) 2 10 True (Some ''r'')),
      (2, RecordStreamCompletion ''/c'' 200 1 2 5 (Some ''r'')),
      (3, RecordStreamCompletion ''/c'' 500 1 2 7 (Some ''r''))] = 1"
  using stream_completion_counted_at_most_once [of fmt0 "''r''" "init 0"
     "[(1, RecordRequest ''/c'' ''POST'' 200 (Some 1) 2 10 True (Some ''r'')),
       (2, RecordStreamCompletion ''/c'' 200 1 2 5 (Some ''r'')),
       (3, RecordStreamCompletion ''/c'' 500 1 2 7 (Some ''r''))]"]
  by (simp add: completes_def effective_id_def init_def counted_def record_request_def
        record_stream_completion_def Let_def is_success_def)

subsection \<open>Current requests per second\<close>

lemma get_current_rps_cases:
  "get_current_rps now self =
     Inr (if length (request_times self) < 2 \<or> recent_requests now self = []
             \<or> now - Min (set (recent_requests now self)) \<le> 0
          then 0
          else real (length (recent_requests now self))
                 / (now - Min (set (recent_requests now self))))"
proof -
  define oldest where "oldest = Min (set (recent_requests now self))"
  have m: "recent_requests now self \<noteq> [] \<Longrightarrow> py_min (recent_requests now self) = Inr oldest"
    unfolding oldest_def by (rule py_min_Min)
  have "get_current_rps now self =
     Inr (if length (request_times self) < 2 \<or> recent_requests now self = []
             \<or> now - oldest \<le> 0
          then 0
          else real (length (recent_requests now self)) / (now - oldest))"
    by (simp add: get_current_rps_def m py_truediv_def Let_def)
  then show ?thesis unfolding oldest_def .
qed

text \<open>
  Claim C8, as stated, fails. The collector that recorded requests at 0 and at 100 has,
  at clock reading 110, exactly one timestamp within the last 60 seconds, and
  \<^verbatim>\<open>get_current_rps\<close> returns 1/10, not 0.0: the guard on fewer than 2 samples looks at
  the whole deque, not at the timestamps of the last minute.
\<close>

theorem one_request_in_window_nonzero_rps:
  "length (recent_requests 110 two_requests_100s_apart) = 1
   \<and> get_current_rps 110 two_requests_100s_apart = Inr (1 / 10)
   \<and> get_current_rps 110 two_requests_100s_apart \<noteq> Inr 0"
proof -
  have t: "request_times two_requests_100s_apart = [0, 100]"
    by (simp add: two_requests_100s_apart_def record_request_def Let_def init_def
          deque_append_def request_times_maxlen_def)
  have r: "recent_requests 110 two_requests_100s_apart = [100]"
    by (simp add: recent_requests_def t in_last_minute_def)
  show ?thesis
    unfolding get_current_rps_cases r t by simp
qed

text \<open>
  Claim C8, amended. \<^verbatim>\<open>get_current_rps\<close> never raises. It returns 0.0 when the deque of
  request timestamps holds fewer than 2, when none of them satisfies \<open>now - t \<le> 60\<close>, or
  when the span from the oldest such timestamp to \<open>now\<close> is not positive; otherwise it
  returns the number of timestamps with \<open>now - t \<le> 60\<close> divided by that span (so with one
  timestamp in the last minute, out of two or more in the deque, it returns 1 / span).
\<close>

theorem current_rps_value:
  "recent_requests now self = filter (\<lambda>t. now - t \<le> 60) (request_times self)
   \<and> get_current_rps now self =
       Inr (if length (request_times self) < 2 \<or> recent_requests now self = []
               \<or> now - Min (set (recent_requests now self)) \<le> 0
            then 0
            else real (length (recent_requests now self))
                   / (now - Min (set (recent_requests now self))))"
  using get_current_rps_cases [of now self]
  by (simp add: recent_requests_def in_last_minute_def [abs_def])

theorem current_rps_value_witness:
  "get_current_rps 110 (init 0 \<lparr> request_times := [60, 100, 105] \<rparr>) = Inr (3 / 50)"
  using current_rps_value [of 110 "init 0 \<lparr> request_times := [60, 100, 105] \<rparr>"]
  by (simp add: init_def)

subsection \<open>Latency tables\<close>

lemma np_percentile_linear:
  assumes "a \<noteq> []" and "0 \<le> q" and "q \<le> 100"
  shows "np_percentile a q = Inr (linear_percentile a q)"
proof -
  define n where "n = length a"
  define pos where "pos = real (n - 1) * (q / 100)"
  define i where "i = nat \<lfloor>pos\<rfloor>"
  have n: "0 < n" using assms(1) by (simp add: n_def)
  have "pos \<le> real (n - 1) * 1"
    unfolding pos_def using assms(3) by (intro mult_left_mono) simp_all
  then have "\<lfloor>pos\<rfloor> \<le> int (n - 1)" by (simp add: floor_le_iff)
  then have i: "i \<le> n - 1" by (simp add: i_def)
  have np: "np_percentile a q =
              Inr (sort a ! i + (pos - real i) * (sort a ! min (i + 1) (n - 1) - sort a ! i))"
    using assms(1) by (simp add: np_percentile_def Let_def n_def pos_def i_def)
  have lp: "linear_percentile a q =
              (if i + 1 < n then (1 - (pos - real i)) * sort a ! i + (pos - real i) * sort a ! (i + 1)
               else sort a ! (n - 1))"
  proof -
    have eq: "real (n - 1) * q / 100 = pos" by (simp add: pos_def)
    show ?thesis
      unfolding linear_percentile_def Let_def n_def [symmetric]
      unfolding eq i_def [symmetric] by (rule refl)
  qed
  show ?thesis
  proof (cases "i + 1 < n")
    case True
    then have "min (i + 1) (n - 1) = i + 1" by simp
    then show ?thesis unfolding np lp using True by (simp add: algebra_simps)
  next
    case False
    with i n have "i = n - 1" by simp
    then show ?thesis unfolding np lp using False by simp
  qed
qed

lemma floor_half_odd: "\<lfloor>real (2 * m + 1) / 2\<rfloor> = int m"
  by (rule floor_unique) simp_all

lemma np_median_linear:
  assumes "a \<noteq> []"
  shows "np_median a = Inr (linear_percentile a 50)"
proof (cases "odd (length a)")
  case True
  then obtain m where m: "length a = 2 * m + 1" by (auto elim: oddE)
  have pos: "real (length a - 1) * 50 / 100 = real m" by (simp add: m)
  have "np_median a = Inr (sort a ! m)"
    using assms True by (simp add: np_median_def Let_def m)
  moreover have "linear_percentile a 50 = sort a ! m"
    unfolding linear_percentile_def Let_def pos by (simp add: m)
  ultimately show ?thesis by simp
next
  case False
  then obtain k where k: "length a = 2 * k" by (auto elim: evenE)
  with assms obtain m where m: "length a = 2 * m + 2" by (cases k) auto
  have pos: "real (length a - 1) * 50 / 100 = real (2 * m + 1) / 2" by (simp add: m)
  have fl: "nat \<lfloor>real (2 * m + 1) / 2\<rfloor> = m"
    unfolding floor_half_odd by simp
  have "np_median a = Inr ((sort a ! m + sort a ! (m + 1)) / 2)"
    using assms False by (simp add: np_median_def Let_def m)
  moreover have "linear_percentile a 50 = (sort a ! m + sort a ! (m + 1)) / 2"
    unfolding linear_percentile_def Let_def pos fl by (simp add: m field_simps)
  ultimately show ?thesis by simp
qed

lemma window_stats_table: "a \<noteq> [] \<Longrightarrow> window_stats a = Inr (stats_table a)"
  by (simp add: window_stats_def stats_table_def bind_err_def np_mean_def np_median_linear
        np_percentile_linear np_min_Min np_max_Max)

text \<open>
  Claim C9. \<^verbatim>\<open>get_recent_latencies\<close> never raises. The table of a window that is empty
  is the empty dictionary, as are both tables of a new collector; the table of a window
  that is not empty has the six entries avg, median, p90, p95, min and max, computed
  from the samples now in that window: their mean, their 50th, 90th and 95th percentile by
  linear interpolation, their least and their greatest.
\<close>

theorem recent_latencies_tables:
  "get_recent_latencies self =
     Inr (if recent_ttfts self = [] then [] else stats_table (recent_ttfts self),
          if recent_ttcts self = [] then [] else stats_table (recent_ttcts self))
   \<and> get_recent_latencies (init t0) = Inr ([], [])"
  by (simp add: get_recent_latencies_def window_stats_table bind_err_def init_def)

theorem recent_latencies_tables_witness:
  "get_recent_latencies
     (run fmt0 (init 0)
        [(1, RecordStreamCompletion ''/c'' 200 3 4 5 (Some ''a'')),
         (2, RecordStreamCompletion ''/c'' 200 1 8 5 (Some ''b'')),
         (3, RecordStreamCompletion ''/c'' 200 2 6 5 (Some ''c''))])
   = Inr ([(''avg'', 2), (''median'', 2), (''p90'', 14 / 5), (''p95'', 29 / 10),
           (''min'', 1), (''max'', 3)],
          [(''avg'', 6), (''median'', 6), (''p90'', 38 / 5), (''p95'', 39 / 5),
           (''min'', 4), (''max'', 8)])"
proof -
  let ?s = "run fmt0 (init 0)
        [(1, RecordStreamCompletion ''/c'' 200 3 4 5 (Some ''a'')),
         (2, RecordStreamCompletion ''/c'' 200 1 8 5 (Some ''b'')),
         (3, RecordStreamCompletion ''/c'' 200 2 6 5 (Some ''c''))]"
  have f: "recent_ttfts ?s = [3, 1, 2]"
    unfolding run_recent_ttfts
    by (simp add: deque_append_def recent_ttfts_maxlen_def init_def)
  have c: "recent_ttcts ?s = [4, 8, 6]"
    unfolding run_recent_ttcts
    by (simp add: deque_append_def recent_ttcts_maxlen_def init_def)
  have sf: "stats_table [3, 1, 2] =
              [(''avg'', 2), (''median'', 2), (''p90'', 14 / 5), (''p95'', 29 / 10),
               (''min'', 1), (''max'', 3)]"
    by (simp add: stats_table_def linear_percentile_def Let_def)
  have sc: "stats_table [4, 8, 6] =
              [(''avg'', 6), (''median'', 6), (''p90'', 38 / 5), (''p95'', 39 / 5),
               (''min'', 4), (''max'', 8)]"
    by (simp add: stats_table_def linear_percentile_def Let_def)
  show ?thesis
    using recent_latencies_tables [of ?s 0] unfolding f c sf sc by simp
qed

end
